theory Spec2Isabelle
  imports Main "HOL-Library.Word"
begin

unbundle bit_operations_syntax

section \<open>JavaScript values\<close>

text \<open>
  A JavaScript string is a sequence of 16-bit code units. Literals of the source are
  written \<open>js ''...''\<close>.
\<close>

type_synonym code_unit = "16 word"
type_synonym jsstring = "code_unit list"

definition js :: "string \<Rightarrow> jsstring" where
  "js s = map of_char s"

text \<open>
  The values \<open>JSON.parse\<close> can return, and \<open>undefined\<close>, which reading a missing
  property gives. A number is its IEEE 754 double, kept as the 64 bits. An object is the
  list of its own properties in insertion order; a lookup takes the first entry of a key.
\<close>

datatype jsval =
    JUndefined
  | JNull
  | JBool bool
  | JNum "64 word"
  | JStr jsstring
  | JArr "jsval list"
  | JObj "(jsstring \<times> jsval) list"

definition is_zero_double :: "64 word \<Rightarrow> bool" where
  "is_zero_double w = (w AND 0x7FFFFFFFFFFFFFFF = 0)"

definition is_nan_double :: "64 word \<Rightarrow> bool" where
  "is_nan_double w =
     (w AND 0x7FF0000000000000 = 0x7FF0000000000000 \<and> w AND 0x000FFFFFFFFFFFFF \<noteq> 0)"

text \<open>\<open>ToBoolean\<close>: what \<open>!v\<close>, \<open>v && ...\<close> and \<open>v || ...\<close> test.\<close>

fun truthy :: "jsval \<Rightarrow> bool" where
  "truthy JUndefined = False"
| "truthy JNull = False"
| "truthy (JBool b) = b"
| "truthy (JNum w) = (\<not> is_zero_double w \<and> \<not> is_nan_double w)"
| "truthy (JStr s) = (s \<noteq> [])"
| "truthy (JArr xs) = True"
| "truthy (JObj fs) = True"

text \<open>
  A thrown value, as far as the \<open>catch\<close> blocks of the source look at it: what
  \<open>instanceof\<close> answers, the text of \<open>err.message\<close>, and \<open>cause.code\<close> when the
  value has a cause whose code is a string.
\<close>

datatype err_class = NotAnError | PlainError | TypeErrorObj | RangeErrorObj | SyntaxErrorObj

record thrown =
  err_class :: err_class
  err_message :: jsstring
  cause_code :: "jsstring option"

definition instanceof_Error :: "thrown \<Rightarrow> bool" where
  "instanceof_Error e = (err_class e \<noteq> NotAnError)"

definition instanceof_SyntaxError :: "thrown \<Rightarrow> bool" where
  "instanceof_SyntaxError e = (err_class e = SyntaxErrorObj)"

definition new_error :: "err_class \<Rightarrow> jsstring \<Rightarrow> thrown" where
  "new_error c m = \<lparr>err_class = c, err_message = m, cause_code = None\<rparr>"

text \<open>
  What the JavaScript engine provides and the repository only calls:
  \<^item> \<open>json_parse\<close> is \<open>JSON.parse\<close>: the value, or \<open>Inl m\<close> when it throws its
    \<open>SyntaxError\<close> with message \<open>m\<close>;
  \<^item> \<open>to_text\<close> is the string conversion of a value that is not a string (in a
    template literal, in \<open>+=\<close> on a string, in \<open>new Error(v)\<close>): the text, or
    \<open>Inl m\<close> when the conversion throws a \<open>TypeError\<close> with message \<open>m\<close>;
  \<^item> \<open>null_read_message k\<close> is the message of the \<open>TypeError\<close> thrown when
    property \<open>k\<close> is read from \<open>null\<close> or \<open>undefined\<close>.
\<close>

record platform =
  json_parse :: "jsstring \<Rightarrow> jsstring + jsval"
  to_text :: "jsval \<Rightarrow> jsstring + jsstring"
  null_read_message :: "jsstring \<Rightarrow> jsstring"

definition JSON_parse :: "platform \<Rightarrow> jsstring \<Rightarrow> thrown + jsval" where
  "JSON_parse P s =
     (case json_parse P s of
        Inl m \<Rightarrow> Inl (new_error SyntaxErrorObj m)
      | Inr v \<Rightarrow> Inr v)"

definition ToString :: "platform \<Rightarrow> jsval \<Rightarrow> thrown + jsstring" where
  "ToString P v =
     (case v of
        JStr s \<Rightarrow> Inr s
      | _ \<Rightarrow> (case to_text P v of
                Inl m \<Rightarrow> Inl (new_error TypeErrorObj m)
              | Inr s \<Rightarrow> Inr s))"

text \<open>
  Reading property \<open>k\<close> of a value, for the keys the source reads (\<open>model\<close>,
  \<open>messages\<close>, \<open>message\<close>, \<open>content\<close>, \<open>error\<close>): none of them is inherited from a
  prototype, so only an object's own properties answer; \<open>null\<close> and \<open>undefined\<close> throw.
\<close>

definition get_prop :: "platform \<Rightarrow> jsval \<Rightarrow> jsstring \<Rightarrow> thrown + jsval" where
  "get_prop P v k =
     (case v of
        JUndefined \<Rightarrow> Inl (new_error TypeErrorObj (null_read_message P k))
      | JNull \<Rightarrow> Inl (new_error TypeErrorObj (null_read_message P k))
      | JObj fs \<Rightarrow> (case map_of fs k of None \<Rightarrow> Inr JUndefined | Some x \<Rightarrow> Inr x)
      | _ \<Rightarrow> Inr JUndefined)"

text \<open>The decimal digits of a status code, as a template literal prints a number.\<close>

fun decimal :: "nat \<Rightarrow> jsstring" where
  "decimal n =
     (if n < 10 then [of_nat (48 + n)]
      else decimal (n div 10) @ [of_nat (48 + n mod 10)])"

declare decimal.simps [simp del]

section \<open>The relay handlers\<close>

text \<open>
  \<open>OLLAMA_API_URL\<close> is \<open>None\<close> when the variable is undefined. \<open>!OLLAMA_API_URL\<close>
  holds for \<open>undefined\<close> and for the empty string.
\<close>

definition url_missing :: "jsstring option \<Rightarrow> bool" where
  "url_missing u = (case u of None \<Rightarrow> True | Some s \<Rightarrow> s = [])"

definition url_text :: "jsstring option \<Rightarrow> jsstring" where
  "url_text u = (case u of None \<Rightarrow> js ''undefined'' | Some s \<Rightarrow> s)"

text \<open>
  A response of the upstream service: its status, its \<open>Content-Type\<close> header, its body
  read to the end as text (\<open>response.text()\<close>; \<open>response.json()\<close> parses the same
  text), and its body as the stream \<open>response.body\<close>, which the relay hands on unread.
\<close>

record 's upstream_response =
  up_status :: nat
  up_content_type :: "jsstring option"
  up_text :: jsstring
  up_body :: 's

definition up_ok :: "'s upstream_response \<Rightarrow> bool" where
  "up_ok r = (200 \<le> up_status r \<and> up_status r \<le> 299)"

text \<open>
  A request the relay sends upstream. \<open>up_json\<close> is the value given to
  \<open>JSON.stringify\<close> for the body, \<open>None\<close> for the bodiless \<open>GET\<close>.
\<close>

record upstream_request =
  up_url :: jsstring
  up_method :: jsstring
  up_headers :: "(jsstring \<times> jsstring) list"
  up_json :: "jsval option"

datatype 's resp_body = JsonText jsval | Passthrough 's

record 's http_response =
  status :: nat
  headers :: "(jsstring \<times> jsstring) list"
  body :: "'s resp_body"

datatype console_arg = Txt jsstring | Thrown thrown

datatype console_entry = ConsoleLog "console_arg list" | ConsoleError "console_arg list"

record 's relay_result =
  response :: "'s http_response"
  upstream_calls :: "upstream_request list"
  relay_console :: "console_entry list"

definition error_envelope :: "jsstring \<Rightarrow> jsval" where
  "error_envelope m = JObj [(js ''error'', JStr m)]"

definition json_headers :: "(jsstring \<times> jsstring) list" where
  "json_headers = [(js ''Content-Type'', js ''application/json'')]"

text \<open>
  The \<open>Response\<close> constructor with a body that is not null: a status outside 200..599
  is a \<open>RangeError\<close>, a null-body status (204, 205, 304 in that range) a \<open>TypeError\<close>.
  The messages are those of the server's \<open>fetch\<close> implementation.
  \<open>json(data, init)\<close> of the framework builds its response with the same constructor;
  the \<open>content-length\<close> header it adds is not kept in \<open>headers\<close>.
\<close>

definition new_Response ::
  "'s resp_body \<Rightarrow> nat \<Rightarrow> (jsstring \<times> jsstring) list \<Rightarrow> thrown + 's http_response" where
  "new_Response b st hs =
     (if st < 200 \<or> 599 < st then
        Inl (new_error RangeErrorObj (js ''init[\"status\"] must be in the range of 200 to 599, inclusive.''))
      else if st = 204 \<or> st = 205 \<or> st = 304 then
        Inl (new_error TypeErrorObj
               (js ''Response constructor: Invalid response status code '' @ decimal st))
      else Inr \<lparr>status = st, headers = hs, body = b\<rparr>)"

definition json_response :: "jsval \<Rightarrow> nat \<Rightarrow> 's http_response" where
  "json_response v st = \<lparr>status = st, headers = json_headers, body = JsonText v\<rparr>"

definition connection_refused :: "thrown \<Rightarrow> bool" where
  "connection_refused e =
     (instanceof_Error e \<and> cause_code e = Some (js ''ECONNREFUSED''))"

subsection \<open>\<open>GET /api/ollama/tags\<close>\<close>

text \<open>
  The \<open>try\<close> block: the response it returns or the value it throws, with the requests
  sent and the console lines written on the way. \<open>net\<close> is how the one \<open>fetch\<close>
  ends if it is called: \<open>Inl\<close> the value it rejects with, \<open>Inr\<close> the response.
\<close>

definition GET_try ::
  "platform \<Rightarrow> jsstring \<Rightarrow> thrown + 's upstream_response \<Rightarrow>
   (thrown + 's http_response) \<times> upstream_request list \<times> console_entry list" where
  "GET_try P url net =
     (let ollamaServiceUrl = url @ js ''/api/tags'';
          con = [ConsoleLog [Txt (js ''Fetching tags from Ollama service: '' @ ollamaServiceUrl)]];
          call = \<lparr>up_url = ollamaServiceUrl, up_method = js ''GET'', up_headers = [],
                  up_json = None\<rparr>
      in case net of
           Inl e \<Rightarrow> (Inl e, [call], con)
         | Inr resp \<Rightarrow>
             if \<not> up_ok resp then
               (let errorText = up_text resp;
                    con' = con @ [ConsoleError [Txt (js ''Error from Ollama service ('' @
                             decimal (up_status resp) @ js ''): '' @ errorText)]]
                in (new_Response
                      (JsonText (error_envelope (js ''Ollama service error: '' @
                         decimal (up_status resp) @ js '' - '' @ errorText)))
                      (up_status resp) json_headers,
                    [call], con'))
             else
               (case JSON_parse P (up_text resp) of
                  Inl e \<Rightarrow> (Inl e, [call], con)
                | Inr data \<Rightarrow> (Inr (json_response data 200), [call], con)))"

definition GET_catch :: "jsstring \<Rightarrow> thrown \<Rightarrow> 's http_response" where
  "GET_catch url error =
     (if connection_refused error then
        json_response
          (error_envelope (js ''Failed to connect to Ollama service at '' @ url @
             js ''. Ensure the service is running and accessible.'')) 503
      else
        json_response
          (error_envelope
             (js ''An unexpected error occurred while trying to connect to the Ollama service.''))
          500)"

definition GET ::
  "platform \<Rightarrow> jsstring option \<Rightarrow> thrown + 's upstream_response \<Rightarrow> 's relay_result" where
  "GET P OLLAMA_API_URL net =
     (if url_missing OLLAMA_API_URL then
        \<lparr>response =
           json_response
             (error_envelope (js ''Application is not configured to connect to Ollama service.''))
             500,
         upstream_calls = [],
         relay_console =
           [ConsoleError [Txt (js ''OLLAMA_API_URL is not defined in environment variables.'')]]\<rparr>
      else
        (case GET_try P (url_text OLLAMA_API_URL) net of
           (Inr r, calls, con) \<Rightarrow>
             \<lparr>response = r, upstream_calls = calls, relay_console = con\<rparr>
         | (Inl error, calls, con) \<Rightarrow>
             \<lparr>response = GET_catch (url_text OLLAMA_API_URL) error,
              upstream_calls = calls,
              relay_console =
                con @ [ConsoleError [Txt (js ''Failed to fetch from Ollama service:''), Thrown error]]\<rparr>))"

subsection \<open>\<open>POST /api/ollama/chat\<close>\<close>

text \<open>
  The part of the \<open>try\<close> block after the validation: the console line, the one
  \<open>fetch\<close> and the answer built from its result.
\<close>

definition POST_forward ::
  "platform \<Rightarrow> jsstring \<Rightarrow> jsval \<Rightarrow> jsval \<Rightarrow> thrown + 's upstream_response \<Rightarrow>
   (thrown + 's http_response) \<times> upstream_request list \<times> console_entry list" where
  "POST_forward P url model messages net =
     (let ollamaChatUrl = url @ js ''/api/chat'' in
      case ToString P model of
        Inl e \<Rightarrow> (Inl e, [], [])
      | Inr model_text \<Rightarrow>
          (let con = [ConsoleLog [Txt (js ''Forwarding chat request to Ollama: '' @ ollamaChatUrl @
                        js '' for model '' @ model_text)]];
               call = \<lparr>up_url = ollamaChatUrl, up_method = js ''POST'',
                       up_headers = json_headers,
                       up_json = Some (JObj [(js ''model'', model), (js ''messages'', messages),
                                             (js ''stream'', JBool True)])\<rparr>
           in case net of
                Inl e \<Rightarrow> (Inl e, [call], con)
              | Inr ollamaResponse \<Rightarrow>
                  if \<not> up_ok ollamaResponse then
                    (let errorText = up_text ollamaResponse;
                         con' = con @ [ConsoleError [Txt (js ''Error from Ollama chat service ('' @
                                  decimal (up_status ollamaResponse) @ js ''): '' @ errorText)]]
                     in (new_Response
                           (JsonText (error_envelope (js ''Ollama service error: '' @
                              decimal (up_status ollamaResponse) @ js '' - '' @ errorText)))
                           (up_status ollamaResponse) json_headers,
                         [call], con'))
                  else
                    (Inr \<lparr>status = 200,
                          headers =
                            [(js ''Content-Type'',
                              (case up_content_type ollamaResponse of
                                 None \<Rightarrow> js ''application/x-ndjson''
                               | Some t \<Rightarrow> if t = [] then js ''application/x-ndjson'' else t)),
                             (js ''Transfer-Encoding'', js ''chunked'')],
                          body = Passthrough (up_body ollamaResponse)\<rparr>,
                     [call], con)))"

text \<open>
  The \<open>try\<close> block of the handler: \<open>request.json()\<close> on the request text, the
  destructuring of \<open>model\<close> and \<open>messages\<close>, the validation, then the forwarding.
\<close>

definition POST_try ::
  "platform \<Rightarrow> jsstring \<Rightarrow> jsstring \<Rightarrow> thrown + 's upstream_response \<Rightarrow>
   (thrown + 's http_response) \<times> upstream_request list \<times> console_entry list" where
  "POST_try P url request_text net =
     (case JSON_parse P request_text of
        Inl e \<Rightarrow> (Inl e, [], [])
      | Inr requestBody \<Rightarrow>
          (case get_prop P requestBody (js ''model'') of
             Inl e \<Rightarrow> (Inl e, [], [])
           | Inr model \<Rightarrow>
               (case get_prop P requestBody (js ''messages'') of
                  Inl e \<Rightarrow> (Inl e, [], [])
                | Inr messages \<Rightarrow>
                    if \<not> truthy model \<or> \<not> truthy messages then
                      (Inr (json_response
                              (error_envelope (js ''Missing model or messages in request body.''))
                              400),
                       [], [])
                    else POST_forward P url model messages net)))"

definition POST_catch :: "jsstring \<Rightarrow> thrown \<Rightarrow> 's http_response" where
  "POST_catch url error =
     (if connection_refused error then
        json_response
          (error_envelope (js ''Failed to connect to Ollama service at '' @ url @
             js ''. Ensure the service is running and accessible.'')) 503
      else if instanceof_SyntaxError error then
        json_response (error_envelope (js ''Invalid JSON in request body.'')) 400
      else
        json_response (error_envelope (js ''An unexpected error occurred in the chat API.'')) 500)"

definition POST ::
  "platform \<Rightarrow> jsstring option \<Rightarrow> jsstring \<Rightarrow> thrown + 's upstream_response \<Rightarrow>
   's relay_result" where
  "POST P OLLAMA_API_URL request_text net =
     (if url_missing OLLAMA_API_URL then
        \<lparr>response =
           json_response
             (error_envelope (js ''Application is not configured to connect to Ollama service.''))
             500,
         upstream_calls = [],
         relay_console =
           [ConsoleError [Txt (js ''OLLAMA_API_URL is not defined in environment variables.'')]]\<rparr>
      else
        (case POST_try P (url_text OLLAMA_API_URL) request_text net of
           (Inr r, calls, con) \<Rightarrow>
             \<lparr>response = r, upstream_calls = calls, relay_console = con\<rparr>
         | (Inl error, calls, con) \<Rightarrow>
             \<lparr>response = POST_catch (url_text OLLAMA_API_URL) error,
              upstream_calls = calls,
              relay_console =
                con @ [ConsoleError [Txt (js ''Error in chat API endpoint:''), Thrown error]]\<rparr>))"

text \<open>The \<open>error\<close> field of a response whose body is a JSON envelope.\<close>

definition error_field :: "'s http_response \<Rightarrow> jsstring option" where
  "error_field r =
     (case body r of
        JsonText (JObj fs) \<Rightarrow> (case map_of fs (js ''error'') of Some (JStr m) \<Rightarrow> Some m | _ \<Rightarrow> None)
      | _ \<Rightarrow> None)"

section \<open>The chat page\<close>

datatype role = User | Assistant | System

record ChatMessage =
  role :: role
  content :: jsstring

text \<open>The variables of the component.\<close>

record page_state =
  messages :: "ChatMessage list"
  userInput :: jsstring
  selectedModel :: jsstring
  availableModels :: "jsstring list"
  isLoading :: bool
  isLoadingModels :: bool
  errorMessage :: jsstring

text \<open>
  \<open>String.prototype.trim\<close> removes the code units of \<open>WhiteSpace\<close> and
  \<open>LineTerminator\<close> from both ends.
\<close>

definition is_white_space :: "code_unit \<Rightarrow> bool" where
  "is_white_space c =
     (c \<in> set [0x0009, 0x000A, 0x000B, 0x000C, 0x000D, 0x0020, 0x00A0, 0x1680,
               0x2028, 0x2029, 0x202F, 0x205F, 0x3000, 0xFEFF]
      \<or> (0x2000 \<le> c \<and> c \<le> 0x200A))"

definition trim :: "jsstring \<Rightarrow> jsstring" where
  "trim s = rev (dropWhile is_white_space (rev (dropWhile is_white_space s)))"

text \<open>
  \<open>s.split(sep)\<close> for a separator of one code unit. The empty string gives the list
  of one empty string.
\<close>

fun js_split :: "code_unit \<Rightarrow> jsstring \<Rightarrow> jsstring list" where
  "js_split sep [] = [[]]"
| "js_split sep (c # cs) =
     (if c = sep then [] # js_split sep cs
      else (case js_split sep cs of
              [] \<Rightarrow> [[c]]
            | l # ls \<Rightarrow> (c # l) # ls))"

definition newline :: code_unit where
  "newline = 0x000A"

text \<open>
  The \<open>messages.map\<close> of the stream loop: the message at index \<open>length - 1\<close> gets the
  new content, every other message stays.
\<close>

definition update_last :: "ChatMessage list \<Rightarrow> jsstring \<Rightarrow> ChatMessage list" where
  "update_last msgs c =
     map (\<lambda>(index, msg). if int index = int (length msgs) - 1 then msg\<lparr>content := c\<rparr> else msg)
       (enumerate 0 msgs)"

text \<open>
  The body of the inner \<open>try\<close> for one line, on the pair of
  \<open>assistantMessageContent\<close> and \<open>messages\<close>: the new pair, or the value thrown.
  Every throw comes before the first assignment.
\<close>

definition line_try ::
  "platform \<Rightarrow> jsstring \<times> ChatMessage list \<Rightarrow> jsstring \<Rightarrow>
   thrown + jsstring \<times> ChatMessage list" where
  "line_try P s line =
     (case JSON_parse P line of
        Inl e \<Rightarrow> Inl e
      | Inr parsedLine \<Rightarrow>
          (case get_prop P parsedLine (js ''message'') of
             Inl e \<Rightarrow> Inl e
           | Inr message \<Rightarrow>
               if \<not> truthy message then Inr s
               else
                 (case get_prop P message (js ''content'') of
                    Inl e \<Rightarrow> Inl e
                  | Inr c \<Rightarrow>
                      if \<not> truthy c then Inr s
                      else
                        (case ToString P c of
                           Inl e \<Rightarrow> Inl e
                         | Inr t \<Rightarrow>
                             (let assistantMessageContent = fst s @ t
                              in Inr (assistantMessageContent,
                                      update_last (snd s) assistantMessageContent))))))"

definition process_line ::
  "platform \<Rightarrow> jsstring \<times> ChatMessage list \<Rightarrow> jsstring \<Rightarrow>
   (jsstring \<times> ChatMessage list) \<times> console_entry list" where
  "process_line P s line =
     (case line_try P s line of
        Inr s' \<Rightarrow> (s', [])
      | Inl e \<Rightarrow>
          (s, [ConsoleError [Txt (js ''Error parsing streamed JSON line:''), Thrown e,
                             Txt (js ''Line:''), Txt line]]))"

text \<open>The \<open>for\<close> loop over the lines of one chunk.\<close>

fun process_lines ::
  "platform \<Rightarrow> jsstring \<times> ChatMessage list \<Rightarrow> jsstring list \<Rightarrow>
   (jsstring \<times> ChatMessage list) \<times> console_entry list" where
  "process_lines P s [] = (s, [])"
| "process_lines P s (line # rest) =
     (case process_line P s line of
        (s', con) \<Rightarrow>
          (case process_lines P s' rest of
             (s'', con') \<Rightarrow> (s'', con @ con')))"

definition lines_of :: "jsstring \<Rightarrow> jsstring list" where
  "lines_of chunk = filter (\<lambda>line. trim line \<noteq> []) (js_split newline chunk)"

text \<open>
  What one \<open>reader.read()\<close> gives: a chunk, already through the streaming decoder
  (\<open>ReadChunk t\<close> carries the text \<open>decoder.decode(value, { stream: true })\<close>
  returned for it), the end of the stream, or a rejection. A reader is the sequence of
  its answers, by the number of the call.
\<close>

datatype read_result = ReadChunk jsstring | ReadDone | ReadFailed thrown

type_synonym reader = "nat \<Rightarrow> read_result"

text \<open>
  The \<open>while (true)\<close> loop, from the \<open>i\<close>-th read on. It returns when the reader
  reports the end (nothing thrown) or rejects (\<open>Some e\<close> thrown); on a reader that
  does neither it never returns, which is the value \<open>None\<close> of the whole.
\<close>

partial_function (option) read_loop ::
  "platform \<Rightarrow> reader \<Rightarrow> nat \<Rightarrow> jsstring \<times> ChatMessage list \<Rightarrow> console_entry list \<Rightarrow>
   (thrown option \<times> (jsstring \<times> ChatMessage list) \<times> console_entry list) option" where
  "read_loop P rd i s con =
     (case rd i of
        ReadDone \<Rightarrow> Some (None, s, con)
      | ReadFailed e \<Rightarrow> Some (Some e, s, con)
      | ReadChunk chunk \<Rightarrow>
          (case process_lines P s (lines_of chunk) of
             (s', con') \<Rightarrow> read_loop P rd (Suc i) s' (con @ con')))"

declare read_loop.simps [code]

text \<open>
  The response the page's \<open>fetch\<close> resolves to: status, the body read to the end as
  text (for \<open>response.json()\<close>), and \<open>response.body\<close>, \<open>None\<close> when it is null.
\<close>

record chat_response =
  resp_status :: nat
  resp_text :: jsstring
  resp_body :: "reader option"

definition resp_ok :: "chat_response \<Rightarrow> bool" where
  "resp_ok r = (200 \<le> resp_status r \<and> resp_status r \<le> 299)"

record client_request =
  req_url :: jsstring
  req_method :: jsstring
  req_headers :: "(jsstring \<times> jsstring) list"
  req_json :: jsval

definition role_text :: "role \<Rightarrow> jsstring" where
  "role_text r =
     (case r of User \<Rightarrow> js ''user'' | Assistant \<Rightarrow> js ''assistant'' | System \<Rightarrow> js ''system'')"

definition message_json :: "ChatMessage \<Rightarrow> jsval" where
  "message_json m =
     JObj [(js ''role'', JStr (role_text (role m))), (js ''content'', JStr (content m))]"

text \<open>
  The value thrown for a response that is not ok or has no body: what
  \<open>response.json()\<close> or the reading of \<open>errorResult.error\<close> throws, else the new
  \<open>Error\<close>.
\<close>

definition error_from_response :: "platform \<Rightarrow> chat_response \<Rightarrow> thrown" where
  "error_from_response P resp =
     (case JSON_parse P (resp_text resp) of
        Inl e \<Rightarrow> e
      | Inr errorResult \<Rightarrow>
          (case get_prop P errorResult (js ''error'') of
             Inl e \<Rightarrow> e
           | Inr err \<Rightarrow>
               if truthy err then
                 (case ToString P err of
                    Inl e \<Rightarrow> e
                  | Inr m \<Rightarrow> new_error PlainError m)
               else new_error PlainError (js ''Chat API error: '' @ decimal (resp_status resp))))"

definition placeholder :: ChatMessage where
  "placeholder = \<lparr>role = Assistant, content = js ''...''\<rparr>"

text \<open>
  The outer \<open>try\<close> block after the \<open>fetch\<close>: the value thrown if any, \<open>messages\<close>
  and the console lines at that point. \<open>net\<close> is how the \<open>fetch\<close> ends.
\<close>

definition submit_try ::
  "platform \<Rightarrow> thrown + chat_response \<Rightarrow> ChatMessage list \<Rightarrow>
   (thrown option \<times> ChatMessage list \<times> console_entry list) option" where
  "submit_try P net msgs =
     (case net of
        Inl e \<Rightarrow> Some (Some e, msgs, [])
      | Inr resp \<Rightarrow>
          (case resp_body resp of
             None \<Rightarrow> Some (Some (error_from_response P resp), msgs, [])
           | Some rd \<Rightarrow>
               if \<not> resp_ok resp then Some (Some (error_from_response P resp), msgs, [])
               else
                 (case read_loop P rd 0 ([], msgs @ [placeholder]) [] of
                    None \<Rightarrow> None
                  | Some (thr, s, con) \<Rightarrow> Some (thr, snd s, con))))"

text \<open>The \<open>catch\<close> block, on \<open>errorMessage\<close> and \<open>messages\<close>.\<close>

definition submit_catch :: "thrown \<Rightarrow> ChatMessage list \<Rightarrow> jsstring \<times> ChatMessage list" where
  "submit_catch err msgs =
     (js ''Error sending message: '' @ err_message err,
      if msgs \<noteq> [] \<and> role (last msgs) = Assistant \<and> content (last msgs) = js ''...''
      then butlast msgs else msgs)"

record page_result =
  page :: page_state
  requests :: "client_request list"
  page_console :: "console_entry list"

definition handleSubmit ::
  "platform \<Rightarrow> thrown + chat_response \<Rightarrow> page_state \<Rightarrow> page_result option" where
  "handleSubmit P net st =
     (if trim (userInput st) = [] \<or> selectedModel st = [] then
        Some \<lparr>page = st\<lparr>errorMessage := js ''Please enter a message and select a model.''\<rparr>,
              requests = [], page_console = []\<rparr>
      else
        (let newUserMessage = \<lparr>role = User, content = userInput st\<rparr>;
             st1 = st\<lparr>isLoading := True, errorMessage := [],
                      messages := messages st @ [newUserMessage]\<rparr>;
             ollamaMessages = messages st1;
             st2 = st1\<lparr>userInput := []\<rparr>;
             request = \<lparr>req_url = js ''/api/ollama/chat'', req_method = js ''POST'',
                        req_headers = [(js ''Content-Type'', js ''application/json'')],
                        req_json = JObj [(js ''model'', JStr (selectedModel st2)),
                                         (js ''messages'', JArr (map message_json ollamaMessages))]\<rparr>
         in case submit_try P net (messages st2) of
              None \<Rightarrow> None
            | Some (None, msgs, con) \<Rightarrow>
                Some \<lparr>page = st2\<lparr>messages := msgs, isLoading := False\<rparr>,
                      requests = [request], page_console = con\<rparr>
            | Some (Some err, msgs, con) \<Rightarrow>
                (case submit_catch err msgs of
                   (text, msgs') \<Rightarrow>
                     Some \<lparr>page = st2\<lparr>messages := msgs', errorMessage := text, isLoading := False\<rparr>,
                           requests = [request],
                           page_console = con @ [ConsoleError [Thrown err]]\<rparr>)))"

section \<open>Vocabulary of the properties\<close>

text \<open>The \<open>stream\<close> entry of the body of an upstream request.\<close>

definition stream_flag :: "upstream_request \<Rightarrow> jsval option" where
  "stream_flag c =
     (case up_json c of Some (JObj fs) \<Rightarrow> map_of fs (js ''stream'') | _ \<Rightarrow> None)"

text \<open>A value has field \<open>k\<close> when it is an object with an own property \<open>k\<close>.\<close>

definition has_field :: "jsval \<Rightarrow> jsstring \<Rightarrow> bool" where
  "has_field v k = (case v of JObj fs \<Rightarrow> map_of fs k \<noteq> None | _ \<Rightarrow> False)"

text \<open>The request the chat relay sends upstream for a model and a history.\<close>

definition chat_call :: "jsstring \<Rightarrow> jsval \<Rightarrow> jsval \<Rightarrow> upstream_request" where
  "chat_call url model msgs =
     \<lparr>up_url = url @ js ''/api/chat'', up_method = js ''POST'', up_headers = json_headers,
      up_json = Some (JObj [(js ''model'', model), (js ''messages'', msgs),
                            (js ''stream'', JBool True)])\<rparr>"

text \<open>
  The reader of a stream that delivers the chunks of a list, one a read, and then closes
  (\<open>None\<close>) or fails with a thrown value.
\<close>

definition reads_of :: "jsstring list \<Rightarrow> thrown option \<Rightarrow> reader" where
  "reads_of chunks failure i =
     (if i < length chunks then ReadChunk (chunks ! i)
      else case failure of None \<Rightarrow> ReadDone | Some e \<Rightarrow> ReadFailed e)"

definition stream_response :: "jsstring list \<Rightarrow> thrown option \<Rightarrow> chat_response" where
  "stream_response chunks failure =
     \<lparr>resp_status = 200, resp_text = [], resp_body = Some (reads_of chunks failure)\<rparr>"

text \<open>A response with the reader of such a stream as its body, as the \<open>fetch\<close> gives it.\<close>

definition with_stream ::
  "chat_response \<Rightarrow> jsstring list \<Rightarrow> thrown option \<Rightarrow> thrown + chat_response" where
  "with_stream resp chunks failure = Inr (resp\<lparr>resp_body := Some (reads_of chunks failure)\<rparr>)"

text \<open>
  A line has content when it parses and passes the test
  \<open>parsedLine.message && parsedLine.message.content\<close>.
\<close>

definition has_content :: "platform \<Rightarrow> jsstring \<Rightarrow> bool" where
  "has_content P line =
     (case json_parse P line of
        Inl m \<Rightarrow> False
      | Inr parsedLine \<Rightarrow>
          (case get_prop P parsedLine (js ''message'') of
             Inl e \<Rightarrow> False
           | Inr message \<Rightarrow>
               truthy message \<and>
               (case get_prop P message (js ''content'') of
                  Inl e \<Rightarrow> False
                | Inr c \<Rightarrow> truthy c)))"

text \<open>
  A well-formed fragment carrying the text \<open>c\<close>: one line (no newline in it, not
  blank) that \<open>JSON.parse\<close> reads as an object whose \<open>message\<close> is an object with
  the string \<open>c\<close> as \<open>content\<close>.
\<close>

definition fragment :: "platform \<Rightarrow> jsstring \<Rightarrow> jsstring \<Rightarrow> bool" where
  "fragment P line c =
     (newline \<notin> set line \<and> trim line \<noteq> [] \<and>
      (case json_parse P line of
         Inr (JObj fs) \<Rightarrow>
           (case map_of fs (js ''message'') of
              Some (JObj ms) \<Rightarrow> map_of ms (js ''content'') = Some (JStr c)
            | _ \<Rightarrow> False)
       | _ \<Rightarrow> False))"

text \<open>A chunk made of whole lines: each fragment line followed by its newline.\<close>

definition chunk_of :: "(jsstring \<times> jsstring) list \<Rightarrow> jsstring" where
  "chunk_of g = concat (map (\<lambda>(line, c). line @ [newline]) g)"

definition parse_error_entry :: "jsstring \<Rightarrow> jsstring \<Rightarrow> console_entry" where
  "parse_error_entry m line =
     ConsoleError [Txt (js ''Error parsing streamed JSON line:''),
                   Thrown (new_error SyntaxErrorObj m), Txt (js ''Line:''), Txt line]"

text \<open>The history a result shows: role and text of each message.\<close>

definition shown :: "page_result option \<Rightarrow> (role \<times> jsstring) list option" where
  "shown r = map_option (\<lambda>x. map (\<lambda>m. (role m, content m)) (messages (page x))) r"

section \<open>Sample inputs\<close>

text \<open>
  A JavaScript engine cut down to the runs below: its \<open>JSON.parse\<close> knows the JSON
  texts of the table and throws on every other text. Every other text these runs parse
  is not JSON (\<open>{"model":\<close>, \<open>oops\<close>, \<open>{"message":{"con\<close>, \<open>tent":"Hi"}}\<close>, two
  fragments on one line), so on these runs it answers as \<open>JSON.parse\<close> does; so it
  does on the line of two spaces, which no run parses. No run converts a value that is not a
  string to text.
\<close>

definition text_empty_object :: jsstring where
  "text_empty_object = js ''{}''"

definition text_null :: jsstring where
  "text_null = js ''null''"

definition text_model_m :: jsstring where
  "text_model_m = js ''{\"model\":\"m\",\"messages\":[]}''"

definition text_empty_model :: jsstring where
  "text_empty_model = js ''{\"model\":\"\",\"messages\":[]}''"

definition text_stream_false :: jsstring where
  "text_stream_false = js ''{\"model\":\"m\",\"messages\":[],\"stream\":false}''"

definition text_truncated :: jsstring where
  "text_truncated = js ''{\"model\":''"

definition line_hi :: jsstring where
  "line_hi = js ''{\"message\":{\"content\":\"Hi\"}}''"

definition line_bang :: jsstring where
  "line_bang = js ''{\"message\":{\"content\":\"!\"}}''"

definition line_empty :: jsstring where
  "line_empty = js ''{\"message\":{\"content\":\"\"}}''"

definition line_oops :: jsstring where
  "line_oops = js ''oops''"

text \<open>
  Two lines that are not JSON: the fragments \<open>Hi\<close> and \<open>!\<close> written one after
  the other with nothing between, and two spaces.
\<close>

definition line_glued :: jsstring where
  "line_glued = line_hi @ line_bang"

definition line_blank :: jsstring where
  "line_blank = [0x0020, 0x0020]"

definition sample_texts :: "(jsstring \<times> jsval) list" where
  "sample_texts =
     [(text_empty_object, JObj []),
      (text_null, JNull),
      (text_model_m, JObj [(js ''model'', JStr (js ''m'')), (js ''messages'', JArr [])]),
      (text_empty_model, JObj [(js ''model'', JStr []), (js ''messages'', JArr [])]),
      (text_stream_false,
       JObj [(js ''model'', JStr (js ''m'')), (js ''messages'', JArr []),
             (js ''stream'', JBool False)]),
      (line_hi, JObj [(js ''message'', JObj [(js ''content'', JStr (js ''Hi''))])]),
      (line_bang, JObj [(js ''message'', JObj [(js ''content'', JStr (js ''!''))])]),
      (line_empty, JObj [(js ''message'', JObj [(js ''content'', JStr [])])])]"

definition sample_platform :: platform where
  "sample_platform =
     \<lparr>json_parse =
        (\<lambda>s. case map_of sample_texts s of
               Some v \<Rightarrow> Inr v
             | None \<Rightarrow> Inl (js ''Unexpected token'')),
      to_text = (\<lambda>v. Inl (js ''Cannot convert object to primitive value'')),
      null_read_message = (\<lambda>k. js ''Cannot read properties of null'')\<rparr>"

definition sample_url :: "jsstring option" where
  "sample_url = Some (js ''http://localhost:11434'')"

text \<open>Rejections of \<open>fetch\<close>: the connection refused, and the host name not resolved.\<close>

definition refused :: thrown where
  "refused = \<lparr>err_class = TypeErrorObj, err_message = js ''fetch failed'',
              cause_code = Some (js ''ECONNREFUSED'')\<rparr>"

definition host_not_found :: thrown where
  "host_not_found = \<lparr>err_class = TypeErrorObj, err_message = js ''fetch failed'',
                     cause_code = Some (js ''ENOTFOUND'')\<rparr>"

definition net_refused :: "thrown + unit upstream_response" where
  "net_refused = Inl refused"

definition net_host_not_found :: "thrown + unit upstream_response" where
  "net_host_not_found = Inl host_not_found"

definition net_stream :: "thrown + unit upstream_response" where
  "net_stream =
     Inr \<lparr>up_status = 200, up_content_type = Some (js ''application/x-ndjson''),
          up_text = [], up_body = ()\<rparr>"

definition net_400 :: "thrown + unit upstream_response" where
  "net_400 =
     Inr \<lparr>up_status = 400, up_content_type = Some (js ''application/json''),
          up_text = js ''{\"error\":\"bad\"}'', up_body = ()\<rparr>"

definition read_aborted :: thrown where
  "read_aborted = \<lparr>err_class = TypeErrorObj, err_message = js ''terminated'',
                   cause_code = None\<rparr>"

definition page0 :: page_state where
  "page0 =
     \<lparr>messages = [\<lparr>role = User, content = js ''hey''\<rparr>, \<lparr>role = Assistant, content = js ''yo''\<rparr>],
      userInput = js ''hello'', selectedModel = js ''llama3'',
      availableModels = [js ''llama3''], isLoading = False, isLoadingModels = False,
      errorMessage = []\<rparr>"

definition page_blank :: page_state where
  "page_blank = page0\<lparr>userInput := [0x0020, 0x0009, 0x00A0, 0x3000]\<rparr>"

definition sample_groups :: "(jsstring \<times> jsstring) list list" where
  "sample_groups = [[(line_hi, js ''Hi''), (line_empty, [])], [(line_bang, js ''!'')]]"

section \<open>Facts about strings and lines\<close>

lemma js_neq_Nil [simp]: "js (c # cs) \<noteq> []"
  by (simp add: js_def)

lemma js_split_not_Nil: "js_split sep s \<noteq> []"
  by (induction s) (auto split: list.splits)

lemma js_split_no_sep: "sep \<notin> set s \<Longrightarrow> js_split sep s = [s]"
  by (induction s) auto

lemma js_split_append: "js_split sep (a @ sep # b) = js_split sep a @ js_split sep b"
proof (induction a)
  case Nil
  show ?case by simp
next
  case (Cons c a)
  then show ?case
    using js_split_not_Nil [of sep a]
    by (cases "js_split sep a") auto
qed

lemma trim_Nil [simp]: "trim [] = []"
  by (simp add: trim_def)

lemma trim_all_white:
  assumes "\<forall>c \<in> set s. is_white_space c"
  shows "trim s = []"
proof -
  from assms have "dropWhile is_white_space s = []"
    by (induction s) auto
  then show ?thesis by (simp only: trim_def rev.simps dropWhile.simps)
qed

lemma lines_of_append: "lines_of (a @ newline # b) = lines_of a @ lines_of b"
  by (simp add: lines_of_def js_split_append)

lemma lines_of_line:
  "newline \<notin> set l \<Longrightarrow> lines_of l = (if trim l = [] then [] else [l])"
  by (simp add: lines_of_def js_split_no_sep)

lemma lines_of_Nil [simp]: "lines_of [] = []"
  by (simp add: lines_of_def)

lemma lines_of_chunk_of:
  assumes "\<forall>(l, c) \<in> set g. newline \<notin> set l \<and> trim l \<noteq> []"
  shows "lines_of (chunk_of g) = map fst g"
  using assms
proof (induction g)
  case Nil
  show ?case by (simp add: chunk_of_def)
next
  case (Cons p g)
  obtain l c where p: "p = (l, c)" by (cases p)
  have "chunk_of (p # g) = l @ newline # chunk_of g"
    by (simp add: chunk_of_def p)
  with Cons p show ?case
    by (simp add: lines_of_append lines_of_line)
qed

lemma lines_of_groups:
  assumes "\<forall>g \<in> set groups. \<forall>(l, c) \<in> set g. fragment P l c"
  shows "concat (map lines_of (map chunk_of groups)) = map fst (concat groups)"
  using assms
proof (induction groups)
  case Nil
  show ?case by simp
next
  case (Cons g groups)
  then have "\<forall>(l, c) \<in> set g. newline \<notin> set l \<and> trim l \<noteq> []"
    by (auto simp: fragment_def)
  then have "lines_of (chunk_of g) = map fst g"
    by (rule lines_of_chunk_of)
  with Cons show ?case by simp
qed

lemma lines_of_at_line_start:
  assumes "A = [] \<or> last A = newline"
  shows "lines_of (A @ B) = lines_of A @ lines_of B"
proof (cases "A = []")
  case True
  then show ?thesis by simp
next
  case False
  with assms obtain A' where A: "A = A' @ [newline]"
    by (metis append_butlast_last_id)
  have "lines_of (A' @ newline # B) = lines_of A' @ lines_of B"
    and "lines_of (A' @ newline # []) = lines_of A' @ lines_of []"
    by (rule lines_of_append)+
  with A show ?thesis by simp
qed

lemma lines_inside_chunk:
  assumes "A = [] \<or> last A = newline"
  shows "concat (map lines_of (pre @ [A @ B] @ post)) =
           (concat (map lines_of pre) @ lines_of A) @ (lines_of B @ concat (map lines_of post))"
    and "concat (map lines_of (pre @ [A @ bad @ [newline] @ B] @ post)) =
           (concat (map lines_of pre) @ lines_of A) @ lines_of bad @
           (lines_of B @ concat (map lines_of post))"
proof -
  have "lines_of (A @ bad @ [newline] @ B) = lines_of A @ lines_of (bad @ newline # B)"
    using lines_of_at_line_start [OF assms, of "bad @ [newline] @ B"] by simp
  then have "lines_of (A @ bad @ [newline] @ B) = lines_of A @ lines_of bad @ lines_of B"
    by (simp add: lines_of_append)
  then show "concat (map lines_of (pre @ [A @ bad @ [newline] @ B] @ post)) =
           (concat (map lines_of pre) @ lines_of A) @ lines_of bad @
           (lines_of B @ concat (map lines_of post))"
    by simp
  show "concat (map lines_of (pre @ [A @ B] @ post)) =
           (concat (map lines_of pre) @ lines_of A) @ (lines_of B @ concat (map lines_of post))"
    using lines_of_at_line_start [OF assms, of B] by simp
qed

lemma lines_own_chunk:
  "concat (map lines_of (pre @ [bad @ [newline]] @ post)) =
     concat (map lines_of pre) @ lines_of bad @ concat (map lines_of post)"
proof -
  have "lines_of (bad @ newline # []) = lines_of bad @ lines_of []"
    by (rule lines_of_append)
  then show ?thesis by simp
qed

section \<open>Facts about the stream loop\<close>

lemma update_last_snoc: "update_last (pre @ [m]) c = pre @ [m\<lparr>content := c\<rparr>]"
proof -
  have "map (\<lambda>(index, msg). if int index = int (length (pre @ [m])) - 1
             then msg\<lparr>content := c\<rparr> else msg) (enumerate 0 pre) = map snd (enumerate 0 pre)"
    by (rule map_cong) (auto simp: in_set_enumerate_eq)
  then show ?thesis
    by (simp add: update_last_def enumerate_append_eq)
qed

lemma process_lines_append:
  "process_lines P s (xs @ ys) =
     (case process_lines P s xs of
        (s', con) \<Rightarrow> (case process_lines P s' ys of (s'', con') \<Rightarrow> (s'', con @ con')))"
  by (induction xs arbitrary: s) (auto split: prod.splits)

lemma process_lines_two:
  assumes "process_lines P s xs = (s1, c1)" and "process_lines P s1 ys = (s2, c2)"
  shows "process_lines P s (xs @ ys) = (s2, c1 @ c2)"
  using assms by (simp add: process_lines_append)

lemma process_lines_three:
  assumes "process_lines P s xs = (s1, c1)" and "process_lines P s1 ys = (s2, c2)"
    and "process_lines P s2 zs = (s3, c3)"
  shows "process_lines P s (xs @ ys @ zs) = (s3, c1 @ c2 @ c3)"
  using assms by (simp add: process_lines_append)

text \<open>
  The loop on a reader that starts with the chunks \<open>cs\<close>: it handles their lines in
  order and goes on with the read after them.
\<close>

lemma read_loop_chunks:
  assumes "\<forall>j < length cs. rd (i + j) = ReadChunk (cs ! j)"
  shows "read_loop P rd i s con =
     (case process_lines P s (concat (map lines_of cs)) of
        (s', con') \<Rightarrow> read_loop P rd (i + length cs) s' (con @ con'))"
  using assms
proof (induction cs arbitrary: i s con)
  case Nil
  show ?case by simp
next
  case (Cons c cs)
  from Cons.prems have h: "rd i = ReadChunk c"
    by (metis add.right_neutral length_greater_0_conv list.distinct(1) nth_Cons_0)
  have t: "\<forall>j < length cs. rd (Suc i + j) = ReadChunk (cs ! j)"
  proof (intro allI impI)
    fix j assume "j < length cs"
    then have "rd (i + Suc j) = ReadChunk ((c # cs) ! Suc j)"
      using Cons.prems by (metis Suc_less_eq length_Cons)
    then show "rd (Suc i + j) = ReadChunk (cs ! j)" by simp
  qed
  show ?case
    apply (subst read_loop.simps)
    apply (simp add: h process_lines_append split: prod.splits)
    apply (intro allI impI)
    apply (subst Cons.IH [OF t])
    apply simp
    done
qed

text \<open>On a stream that closes or fails after finitely many chunks the loop returns.\<close>

lemma read_loop_reads_of:
  "read_loop P (reads_of cs failure) 0 s con =
     (case process_lines P s (concat (map lines_of cs)) of
        (s', con') \<Rightarrow> Some (failure, s', con @ con'))"
proof -
  have "\<forall>j < length cs. reads_of cs failure (0 + j) = ReadChunk (cs ! j)"
    by (simp add: reads_of_def)
  from read_loop_chunks [OF this, of P s con]
  show ?thesis
    by (subst (asm) (2) read_loop.simps)
       (auto simp: reads_of_def split: prod.splits option.splits)
qed

lemma submit_try_stream:
  assumes "resp_ok resp" and "resp_body resp = Some (reads_of cs failure)"
  shows "submit_try P (Inr resp) msgs =
     (case process_lines P ([], msgs @ [placeholder]) (concat (map lines_of cs)) of
        (s', con) \<Rightarrow> Some (failure, snd s', con))"
  using assms by (simp add: submit_try_def read_loop_reads_of split: prod.splits)

lemma process_line_fragment:
  assumes "fragment P l c"
  shows "process_line P (acc, pre @ [m]) l =
     ((if c = [] then (acc, pre @ [m]) else (acc @ c, pre @ [m\<lparr>content := acc @ c\<rparr>])), [])"
  using assms
  by (auto simp: fragment_def process_line_def line_try_def JSON_parse_def get_prop_def
      ToString_def update_last_snoc Let_def
      split: sum.splits jsval.splits option.splits)

lemma process_lines_fragments:
  assumes "\<forall>(l, c) \<in> set frs. fragment P l c"
  shows "process_lines P (acc, pre @ [m]) (map fst frs) =
     ((acc @ concat (map snd frs),
       pre @ [if concat (map snd frs) = [] then m
              else m\<lparr>content := acc @ concat (map snd frs)\<rparr>]), [])"
  using assms
proof (induction frs arbitrary: acc m)
  case Nil
  show ?case by simp
next
  case (Cons p frs)
  obtain l c where p: "p = (l, c)" by (cases p)
  from Cons.prems p have f: "fragment P l c" and r: "\<forall>(l, c) \<in> set frs. fragment P l c"
    by auto
  show ?case
  proof (cases "c = []")
    case True
    with Cons.IH [OF r, of acc m] process_line_fragment [OF f, of acc pre m] p
    show ?thesis by simp
  next
    case False
    with Cons.IH [OF r, of "acc @ c" "m\<lparr>content := acc @ c\<rparr>"]
      process_line_fragment [OF f, of acc pre m] p
    show ?thesis by simp
  qed
qed

lemma process_line_no_content:
  "\<not> has_content P l \<Longrightarrow> fst (process_line P s l) = s"
  by (auto simp: has_content_def process_line_def line_try_def JSON_parse_def
      split: sum.splits)

lemma process_lines_no_content:
  "\<forall>l \<in> set ls. \<not> has_content P l \<Longrightarrow> fst (process_lines P s ls) = s"
proof (induction ls arbitrary: s)
  case Nil
  show ?case by simp
next
  case (Cons l ls)
  then have "fst (process_line P s l) = s" and "fst (process_lines P s ls) = s"
    by (simp_all add: process_line_no_content)
  then show ?case
    by (auto split: prod.splits)
qed

lemma process_lines_bad:
  assumes "newline \<notin> set bad" and "json_parse P bad = Inl m"
  shows "process_lines P s (lines_of bad) =
           (s, if trim bad = [] then [] else [parse_error_entry m bad])"
  using assms
  by (simp add: lines_of_line process_line_def line_try_def JSON_parse_def parse_error_entry_def)

text \<open>
  Two streams whose lines differ by one line that does not parse: the page ends in the
  same state, with one more console line (none when the line is blank).
\<close>

lemma bad_line_skipped:
  assumes "trim (userInput st) \<noteq> []" and "selectedModel st \<noteq> []" and "resp_ok resp"
    and "newline \<notin> set bad" and "json_parse P bad = Inl m"
    and "concat (map lines_of cs) = L1 @ L2"
    and "concat (map lines_of cs') = L1 @ lines_of bad @ L2"
  shows "\<exists>r r'.
           handleSubmit P (with_stream resp cs failure) st = Some r
         \<and> handleSubmit P (with_stream resp cs' failure) st = Some r'
         \<and> page r' = page r \<and> requests r' = requests r
         \<and> (failure = None \<longrightarrow> errorMessage (page r') = [])
         \<and> (\<exists>c1 c2. page_console r = c1 @ c2
              \<and> page_console r' =
                  c1 @ (if trim bad = [] then [] else [parse_error_entry m bad]) @ c2)"
proof -
  let ?msgs = "messages st @ [\<lparr>role = User, content = userInput st\<rparr>]"
  let ?s = "([], ?msgs @ [placeholder])"
  let ?X = "if trim bad = [] then [] else [parse_error_entry m bad]"
  let ?resp = "resp\<lparr>resp_body := Some (reads_of cs failure)\<rparr>"
  let ?resp' = "resp\<lparr>resp_body := Some (reads_of cs' failure)\<rparr>"
  obtain s1 c1 where p1: "process_lines P ?s L1 = (s1, c1)"
    by (cases "process_lines P ?s L1") auto
  obtain s2 c2 where p2: "process_lines P s1 L2 = (s2, c2)"
    by (cases "process_lines P s1 L2") auto
  have ok: "resp_ok ?resp" "resp_ok ?resp'"
    using assms(3) by (simp_all add: resp_ok_def)
  have a: "process_lines P ?s (concat (map lines_of cs)) = (s2, c1 @ c2)"
    unfolding assms(6)
    by (rule process_lines_two [OF p1 p2])
  have b: "process_lines P ?s (concat (map lines_of cs')) = (s2, c1 @ ?X @ c2)"
    unfolding assms(7)
    by (rule process_lines_three [OF p1 process_lines_bad [OF assms(4,5)] p2])
  have ta: "submit_try P (Inr ?resp) ?msgs = Some (failure, snd s2, c1 @ c2)"
    using submit_try_stream [OF ok(1), of _ failure P ?msgs] a by simp
  have tb: "submit_try P (Inr ?resp') ?msgs = Some (failure, snd s2, c1 @ ?X @ c2)"
    using submit_try_stream [OF ok(2), of _ failure P ?msgs] b by simp
  show ?thesis
  proof (cases failure)
    case None
    with assms(1,2) ta tb have
      "\<exists>r r'. handleSubmit P (Inr ?resp) st = Some r \<and> handleSubmit P (Inr ?resp') st = Some r'
         \<and> page r' = page r \<and> requests r' = requests r
         \<and> errorMessage (page r') = []
         \<and> page_console r = c1 @ c2
         \<and> page_console r' = c1 @ ?X @ c2"
      by (simp add: handleSubmit_def Let_def)
    then show ?thesis unfolding with_stream_def by blast
  next
    case (Some e)
    with assms(1,2) ta tb have
      "\<exists>r r'. handleSubmit P (Inr ?resp) st = Some r \<and> handleSubmit P (Inr ?resp') st = Some r'
         \<and> page r' = page r \<and> requests r' = requests r
         \<and> page_console r = c1 @ (c2 @ [ConsoleError [Thrown e]])
         \<and> page_console r' = c1 @ ?X @ (c2 @ [ConsoleError [Thrown e]])"
      by (simp add: handleSubmit_def Let_def split: prod.splits)
    with Some show ?thesis unfolding with_stream_def by blast
  qed
qed

section \<open>Facts about the chat relay\<close>

lemma POST_forward_calls:
  "snd (POST_forward P url model msgs net) = ([], []) \<or>
   fst (snd (POST_forward P url model msgs net)) = [chat_call url model msgs]"
  by (auto simp: POST_forward_def chat_call_def Let_def split: sum.splits)

lemma POST_try_calls:
  "fst (snd (POST_try P url t net)) = [] \<or>
   (\<exists>model msgs. fst (snd (POST_try P url t net)) = [chat_call url model msgs])"
  using POST_forward_calls [of P url _ _ net]
  apply (auto simp: POST_try_def split: sum.splits)
  by (metis fst_conv)

lemma POST_calls:
  "upstream_calls (POST P u t net) = [] \<or>
   (\<exists>model msgs. upstream_calls (POST P u t net) = [chat_call (url_text u) model msgs])"
proof (cases "url_missing u")
  case True
  then show ?thesis by (simp add: POST_def)
next
  case False
  obtain r calls con where t: "POST_try P (url_text u) t net = (r, calls, con)"
    by (cases "POST_try P (url_text u) t net") auto
  with POST_try_calls [of P "url_text u" t net]
  have "calls = [] \<or> (\<exists>model msgs. calls = [chat_call (url_text u) model msgs])"
    by simp
  with False t show ?thesis
    by (cases r) (simp_all add: POST_def)
qed

lemma stream_flag_chat_call: "stream_flag (chat_call url model msgs) = Some (JBool True)"
  by (simp add: stream_flag_def chat_call_def js_def)

lemma POST_forwards:
  assumes "\<not> url_missing u" and "json_parse P t = Inr (JObj fs)"
    and "map_of fs (js ''model'') = Some (JStr m)" and "m \<noteq> []"
    and "map_of fs (js ''messages'') = Some ms" and "truthy ms"
  shows "POST_try P (url_text u) t net = POST_forward P (url_text u) (JStr m) ms net"
    and "upstream_calls (POST P u t net) = [chat_call (url_text u) (JStr m) ms]"
  using assms
  by (auto simp: POST_def POST_try_def POST_forward_def JSON_parse_def get_prop_def
      ToString_def chat_call_def Let_def split: sum.splits prod.splits)

section \<open>Facts about the sample inputs\<close>

lemmas sample_text_defs =
  text_empty_object_def text_null_def text_model_m_def text_empty_model_def
  text_stream_false_def text_truncated_def line_hi_def line_bang_def line_empty_def
  line_oops_def

lemma sample_parse:
  "json_parse sample_platform text_empty_object = Inr (JObj [])"
  "json_parse sample_platform text_null = Inr JNull"
  "json_parse sample_platform text_model_m =
     Inr (JObj [(js ''model'', JStr (js ''m'')), (js ''messages'', JArr [])])"
  "json_parse sample_platform text_empty_model =
     Inr (JObj [(js ''model'', JStr []), (js ''messages'', JArr [])])"
  "json_parse sample_platform text_stream_false =
     Inr (JObj [(js ''model'', JStr (js ''m'')), (js ''messages'', JArr []),
                (js ''stream'', JBool False)])"
  "json_parse sample_platform text_truncated = Inl (js ''Unexpected token'')"
  "json_parse sample_platform line_oops = Inl (js ''Unexpected token'')"
  by (simp_all add: sample_platform_def sample_texts_def sample_text_defs js_def)

lemma sample_not_json:
  "json_parse sample_platform line_glued = Inl (js ''Unexpected token'')"
  "json_parse sample_platform line_blank = Inl (js ''Unexpected token'')"
  "newline \<notin> set line_glued"
  "newline \<notin> set line_blank"
  by (simp_all add: sample_platform_def sample_texts_def sample_text_defs line_glued_def
      line_blank_def js_def newline_def)

lemma sample_url_set:
  "\<not> url_missing sample_url" "url_text sample_url = js ''http://localhost:11434''"
  by (simp_all add: sample_url_def url_missing_def url_text_def)

lemma sample_fragments:
  "fragment sample_platform line_hi (js ''Hi'')"
  "fragment sample_platform line_bang (js ''!'')"
  "fragment sample_platform line_empty []"
  by (simp_all add: fragment_def sample_platform_def sample_texts_def sample_text_defs
      js_def newline_def trim_def is_white_space_def)

lemma page0_ready: "trim (userInput page0) \<noteq> []" "selectedModel page0 \<noteq> []"
  by (simp_all add: page0_def js_def trim_def is_white_space_def)

section \<open>The assembled assistant message\<close>

text \<open>
  C1 (amended). Let the stream deliver well-formed fragments carrying the texts
  \<open>c1 .. cn\<close>, every chunk made of whole lines, and then close. Then \<open>handleSubmit\<close>
  returns, and the assistant message it leaves displayed after the user's message is
  \<open>c1 + ... + cn\<close> in arrival order when that text is not empty; when it is empty
  the placeholder \<open>...\<close> stays. No error is shown and loading has ended.
\<close>

theorem assembled_message_whole_lines:
  assumes "trim (userInput st) \<noteq> []" and "selectedModel st \<noteq> []"
    and "resp_ok resp" and "resp_body resp = Some (reads_of (map chunk_of groups) None)"
    and "\<forall>g \<in> set groups. \<forall>(l, c) \<in> set g. fragment P l c"
  shows "\<exists>r. handleSubmit P (Inr resp) st = Some r
       \<and> messages (page r) =
           messages st @
             [\<lparr>role = User, content = userInput st\<rparr>,
              \<lparr>role = Assistant,
               content = (if concat (map snd (concat groups)) = [] then js ''...''
                          else concat (map snd (concat groups)))\<rparr>]
       \<and> errorMessage (page r) = [] \<and> \<not> isLoading (page r)"
proof -
  let ?msgs = "messages st @ [\<lparr>role = User, content = userInput st\<rparr>]"
  let ?C = "concat (map snd (concat groups))"
  have f: "\<forall>(l, c) \<in> set (concat groups). fragment P l c"
    using assms(5) by auto
  have "process_lines P ([], ?msgs @ [placeholder])
          (concat (map lines_of (map chunk_of groups))) =
        (([] @ ?C,
          ?msgs @ [if ?C = [] then placeholder else placeholder\<lparr>content := [] @ ?C\<rparr>]), [])"
    unfolding lines_of_groups [OF assms(5)]
    by (rule process_lines_fragments [OF f])
  with assms(1,2) submit_try_stream [OF assms(3,4), of P ?msgs]
  show ?thesis
    by (simp add: handleSubmit_def Let_def placeholder_def)
qed

text \<open>
  A run: two chunks of whole lines, the fragments \<open>Hi\<close>, the empty text and \<open>!\<close>;
  the page shows \<open>Hi!\<close>.
\<close>

theorem assembled_message_whole_lines_witness:
  "trim (userInput page0) \<noteq> [] \<and> selectedModel page0 \<noteq> []
   \<and> resp_ok (stream_response (map chunk_of sample_groups) None)
   \<and> sample_groups = [[(line_hi, js ''Hi''), (line_empty, [])], [(line_bang, js ''!'')]]
   \<and> fragment sample_platform line_hi (js ''Hi'')
   \<and> fragment sample_platform line_empty []
   \<and> fragment sample_platform line_bang (js ''!'')
   \<and> (\<exists>r. handleSubmit sample_platform
              (Inr (stream_response (map chunk_of sample_groups) None)) page0 = Some r
        \<and> messages (page r) =
            messages page0 @
              [\<lparr>role = User, content = js ''hello''\<rparr>,
               \<lparr>role = Assistant, content = js ''Hi!''\<rparr>])"
proof -
  have ok: "resp_ok (stream_response (map chunk_of sample_groups) None)"
    and b: "resp_body (stream_response (map chunk_of sample_groups) None) =
              Some (reads_of (map chunk_of sample_groups) None)"
    by (simp_all add: stream_response_def resp_ok_def)
  have fr: "\<forall>g \<in> set sample_groups. \<forall>(l, c) \<in> set g. fragment sample_platform l c"
    by (simp add: sample_groups_def sample_fragments)
  have c: "concat (map snd (concat sample_groups)) = js ''Hi!''"
    by (simp add: sample_groups_def js_def)
  have u: "userInput page0 = js ''hello''"
    by (simp add: page0_def)
  from assembled_message_whole_lines [OF page0_ready ok b fr]
  have "\<exists>r. handleSubmit sample_platform
              (Inr (stream_response (map chunk_of sample_groups) None)) page0 = Some r
        \<and> messages (page r) =
            messages page0 @
              [\<lparr>role = User, content = js ''hello''\<rparr>,
               \<lparr>role = Assistant, content = js ''Hi!''\<rparr>]"
    unfolding c u by auto
  with page0_ready ok sample_fragments sample_groups_def show ?thesis by blast
qed

text \<open>
  Two runs where the displayed message is not the concatenation. In the first the
  fragment \<open>Hi\<close> arrives cut in two chunks: neither part parses, and the placeholder
  stays. In the second the only fragment carries the empty text: the page shows the
  placeholder, not the empty text.
\<close>

theorem assembled_message_counterexample:
  "fragment sample_platform line_hi (js ''Hi'')
   \<and> js ''{\"message\":{\"con'' @ js ''tent\":\"Hi\"}}'' = line_hi
   \<and> shown (handleSubmit sample_platform
        (Inr (stream_response [js ''{\"message\":{\"con'', js ''tent\":\"Hi\"}}'' @ [newline]] None))
        page0) =
       Some [(User, js ''hey''), (Assistant, js ''yo''), (User, js ''hello''),
             (Assistant, js ''...'')]
   \<and> js ''...'' \<noteq> js ''Hi''
   \<and> fragment sample_platform line_empty []
   \<and> shown (handleSubmit sample_platform
        (Inr (stream_response [line_empty @ [newline]] None)) page0) =
       Some [(User, js ''hey''), (Assistant, js ''yo''), (User, js ''hello''),
             (Assistant, js ''...'')]
   \<and> js ''...'' \<noteq> []"
proof -
  have a: "js ''{\"message\":{\"con'' @ js ''tent\":\"Hi\"}}'' = line_hi"
    by (simp add: line_hi_def js_def)
  have b: "shown (handleSubmit sample_platform
        (Inr (stream_response [js ''{\"message\":{\"con'', js ''tent\":\"Hi\"}}'' @ [newline]] None))
        page0) =
       Some [(User, js ''hey''), (Assistant, js ''yo''), (User, js ''hello''),
             (Assistant, js ''...'')]"
    by code_simp
  have c: "shown (handleSubmit sample_platform
        (Inr (stream_response [line_empty @ [newline]] None)) page0) =
       Some [(User, js ''hey''), (Assistant, js ''yo''), (User, js ''hello''),
             (Assistant, js ''...'')]"
    by code_simp
  have d: "js ''...'' \<noteq> js ''Hi''"
    by (simp add: js_def)
  show ?thesis
    using sample_fragments(1,3) a b c d by simp
qed

section \<open>A malformed line in the stream\<close>

text \<open>
  C6 (amended). Take any stream the page reads and one line that \<open>JSON.parse\<close>
  rejects, and let the line arrive whole: with its newline inside one chunk, at the start
  of a line (at the start of the chunk or right after a newline, so between two
  fragments), or between two chunks as a chunk of its own. Then \<open>handleSubmit\<close>
  returns as without the line and leaves the same page: the same messages, so the same
  assembled assistant message, the same error text (none, when the stream closes), and
  the same request; the lines after it are handled as before. The line is logged with one
  console line when it is not blank; a blank line is dropped before parsing and leaves
  no console line.
\<close>

theorem malformed_line_is_skipped:
  assumes "trim (userInput st) \<noteq> []" and "selectedModel st \<noteq> []" and "resp_ok resp"
    and "newline \<notin> set bad" and "json_parse P bad = Inl m"
    and "A = [] \<or> last A = newline"
  shows "(\<exists>r r'.
           handleSubmit P (with_stream resp (pre @ [A @ B] @ post) failure) st = Some r
         \<and> handleSubmit P
             (with_stream resp (pre @ [A @ bad @ [newline] @ B] @ post) failure) st = Some r'
         \<and> page r' = page r \<and> requests r' = requests r
         \<and> (failure = None \<longrightarrow> errorMessage (page r') = [])
         \<and> (\<exists>c1 c2. page_console r = c1 @ c2
              \<and> page_console r' =
                  c1 @ (if trim bad = [] then [] else [parse_error_entry m bad]) @ c2))
       \<and> (\<exists>r r'.
           handleSubmit P (with_stream resp (pre @ post) failure) st = Some r
         \<and> handleSubmit P
             (with_stream resp (pre @ [bad @ [newline]] @ post) failure) st = Some r'
         \<and> page r' = page r \<and> requests r' = requests r
         \<and> (failure = None \<longrightarrow> errorMessage (page r') = [])
         \<and> (\<exists>c1 c2. page_console r = c1 @ c2
              \<and> page_console r' =
                  c1 @ (if trim bad = [] then [] else [parse_error_entry m bad]) @ c2))"
proof (rule conjI)
  show "\<exists>r r'.
           handleSubmit P (with_stream resp (pre @ [A @ B] @ post) failure) st = Some r
         \<and> handleSubmit P
             (with_stream resp (pre @ [A @ bad @ [newline] @ B] @ post) failure) st = Some r'
         \<and> page r' = page r \<and> requests r' = requests r
         \<and> (failure = None \<longrightarrow> errorMessage (page r') = [])
         \<and> (\<exists>c1 c2. page_console r = c1 @ c2
              \<and> page_console r' =
                  c1 @ (if trim bad = [] then [] else [parse_error_entry m bad]) @ c2)"
    by (rule bad_line_skipped [OF assms(1-5) lines_inside_chunk [OF assms(6)]])
  have "concat (map lines_of (pre @ post)) =
          concat (map lines_of pre) @ concat (map lines_of post)"
    by simp
  then show "\<exists>r r'.
           handleSubmit P (with_stream resp (pre @ post) failure) st = Some r
         \<and> handleSubmit P
             (with_stream resp (pre @ [bad @ [newline]] @ post) failure) st = Some r'
         \<and> page r' = page r \<and> requests r' = requests r
         \<and> (failure = None \<longrightarrow> errorMessage (page r') = [])
         \<and> (\<exists>c1 c2. page_console r = c1 @ c2
              \<and> page_console r' =
                  c1 @ (if trim bad = [] then [] else [parse_error_entry m bad]) @ c2)"
    by (rule bad_line_skipped [OF assms(1-5) _ lines_own_chunk])
qed

text \<open>
  A run: the line \<open>oops\<close> between the fragments \<open>Hi\<close> and \<open>!\<close>, inside their
  chunk. With and without it the page ends with \<open>Hi!\<close>.
\<close>

theorem malformed_line_is_skipped_witness:
  "trim (userInput page0) \<noteq> [] \<and> selectedModel page0 \<noteq> []
   \<and> resp_ok (stream_response [] None)
   \<and> newline \<notin> set line_oops
   \<and> json_parse sample_platform line_oops = Inl (js ''Unexpected token'')
   \<and> last (line_hi @ [newline]) = newline
   \<and> shown (handleSubmit sample_platform
        (with_stream (stream_response [] None)
           [(line_hi @ [newline]) @ line_oops @ [newline] @ line_bang @ [newline]] None) page0) =
       Some [(User, js ''hey''), (Assistant, js ''yo''), (User, js ''hello''),
             (Assistant, js ''Hi!'')]
   \<and> (\<exists>r r'.
         handleSubmit sample_platform
           (with_stream (stream_response [] None)
              [(line_hi @ [newline]) @ line_bang @ [newline]] None) page0 = Some r
       \<and> handleSubmit sample_platform
           (with_stream (stream_response [] None)
              [(line_hi @ [newline]) @ line_oops @ [newline] @ line_bang @ [newline]] None)
           page0 = Some r'
       \<and> page r' = page r \<and> requests r' = requests r
       \<and> errorMessage (page r') = []
       \<and> (\<exists>c1 c2. page_console r = c1 @ c2
            \<and> page_console r' =
                c1 @ [parse_error_entry (js ''Unexpected token'') line_oops] @ c2))"
proof -
  have ok: "resp_ok (stream_response [] None)"
    by (simp add: stream_response_def resp_ok_def)
  have n: "newline \<notin> set line_oops" and t: "trim line_oops \<noteq> []"
    by (simp_all add: line_oops_def js_def newline_def trim_def is_white_space_def)
  have l: "last (line_hi @ [newline]) = newline"
    by simp
  then have l': "line_hi @ [newline] = [] \<or> last (line_hi @ [newline]) = newline"
    by simp
  have e: "shown (handleSubmit sample_platform
        (with_stream (stream_response [] None)
           [(line_hi @ [newline]) @ line_oops @ [newline] @ line_bang @ [newline]] None) page0) =
       Some [(User, js ''hey''), (Assistant, js ''yo''), (User, js ''hello''),
             (Assistant, js ''Hi!'')]"
    by code_simp
  from malformed_line_is_skipped [OF page0_ready ok n sample_parse(7) l',
      of "[]" "line_bang @ [newline]" "[]" None]
  have "\<exists>r r'.
         handleSubmit sample_platform
           (with_stream (stream_response [] None)
              [(line_hi @ [newline]) @ line_bang @ [newline]] None) page0 = Some r
       \<and> handleSubmit sample_platform
           (with_stream (stream_response [] None)
              [(line_hi @ [newline]) @ line_oops @ [newline] @ line_bang @ [newline]] None)
           page0 = Some r'
       \<and> page r' = page r \<and> requests r' = requests r
       \<and> errorMessage (page r') = []
       \<and> (\<exists>c1 c2. page_console r = c1 @ c2
            \<and> page_console r' =
                c1 @ [parse_error_entry (js ''Unexpected token'') line_oops] @ c2)"
    using t by (simp del: append_assoc)
  with page0_ready ok n sample_parse(7) l e show ?thesis by blast
qed

text \<open>
  Two runs. In the first the malformed line between the fragments \<open>Hi\<close> and \<open>!\<close>
  is the two fragments glued together, and it arrives cut in two chunks, each a fragment
  by itself: the page shows \<open>HiHi!!\<close>, where without the line it shows \<open>Hi!\<close>. In
  the second the malformed line is two spaces: nothing is written to the console.
\<close>

theorem malformed_line_counterexample:
  "json_parse sample_platform line_glued = Inl (js ''Unexpected token'')
   \<and> newline \<notin> set line_glued
   \<and> concat [line_hi @ [newline], line_hi, line_bang @ [newline], line_bang @ [newline]] =
       line_hi @ [newline] @ line_glued @ [newline] @ line_bang @ [newline]
   \<and> shown (handleSubmit sample_platform
        (Inr (stream_response [line_hi @ [newline], line_bang @ [newline]] None)) page0) =
       Some [(User, js ''hey''), (Assistant, js ''yo''), (User, js ''hello''),
             (Assistant, js ''Hi!'')]
   \<and> shown (handleSubmit sample_platform
        (Inr (stream_response
           [line_hi @ [newline], line_hi, line_bang @ [newline], line_bang @ [newline]] None))
        page0) =
       Some [(User, js ''hey''), (Assistant, js ''yo''), (User, js ''hello''),
             (Assistant, js ''HiHi!!'')]
   \<and> js ''HiHi!!'' \<noteq> js ''Hi!''
   \<and> json_parse sample_platform line_blank = Inl (js ''Unexpected token'')
   \<and> newline \<notin> set line_blank
   \<and> map_option page_console (handleSubmit sample_platform
        (Inr (stream_response
           [line_hi @ [newline] @ line_blank @ [newline] @ line_bang @ [newline]] None))
        page0) = Some []"
proof -
  have a: "concat [line_hi @ [newline], line_hi, line_bang @ [newline], line_bang @ [newline]] =
       line_hi @ [newline] @ line_glued @ [newline] @ line_bang @ [newline]"
    by (simp add: line_glued_def)
  have b: "shown (handleSubmit sample_platform
        (Inr (stream_response [line_hi @ [newline], line_bang @ [newline]] None)) page0) =
       Some [(User, js ''hey''), (Assistant, js ''yo''), (User, js ''hello''),
             (Assistant, js ''Hi!'')]"
    by code_simp
  have c: "shown (handleSubmit sample_platform
        (Inr (stream_response
           [line_hi @ [newline], line_hi, line_bang @ [newline], line_bang @ [newline]] None))
        page0) =
       Some [(User, js ''hey''), (Assistant, js ''yo''), (User, js ''hello''),
             (Assistant, js ''HiHi!!'')]"
    by code_simp
  have d: "js ''HiHi!!'' \<noteq> js ''Hi!''"
    by (simp add: js_def)
  have e: "map_option page_console (handleSubmit sample_platform
        (Inr (stream_response
           [line_hi @ [newline] @ line_blank @ [newline] @ line_bang @ [newline]] None))
        page0) = Some []"
    by code_simp
  show ?thesis
    using sample_not_json a b c d e by simp
qed

section \<open>Blank input\<close>

text \<open>
  C7. When the user input is empty or made of white space only, \<open>handleSubmit\<close>
  returns with the message history unchanged and without any request sent; all it
  changes is the error text.
\<close>

theorem blank_input_is_ignored:
  assumes "\<forall>c \<in> set (userInput st). is_white_space c"
  shows "\<exists>r. handleSubmit P net st = Some r
       \<and> messages (page r) = messages st \<and> requests r = []
       \<and> page r = st\<lparr>errorMessage := js ''Please enter a message and select a model.''\<rparr>"
  using trim_all_white [OF assms] by (simp add: handleSubmit_def)

text \<open>A run: an input of a space, a tab, a no-break space and an ideographic space.\<close>

theorem blank_input_is_ignored_witness:
  "list_all is_white_space (userInput page_blank)
   \<and> userInput page_blank \<noteq> []
   \<and> (\<exists>r. handleSubmit sample_platform (Inr (stream_response [line_hi @ [newline]] None))
             page_blank = Some r
        \<and> messages (page r) = messages page_blank \<and> requests r = [])"
proof -
  have w: "\<forall>c \<in> set (userInput page_blank). is_white_space c"
    by (simp add: page_blank_def is_white_space_def)
  have n: "userInput page_blank \<noteq> []"
    by (simp add: page_blank_def)
  have l: "list_all is_white_space (userInput page_blank)"
    using w by (simp add: list_all_iff)
  from blank_input_is_ignored [OF w, of sample_platform
      "Inr (stream_response [line_hi @ [newline]] None)"] l n
  show ?thesis by blast
qed

section \<open>Failure before any content\<close>

text \<open>
  C8. When the exchange fails after the placeholder was appended (a read of the stream
  rejects) and no line received until then had message content, \<open>handleSubmit\<close>
  returns with the placeholder removed: the history is the old one followed by the
  user's message, the error text is shown and loading has ended.
\<close>

theorem placeholder_removed_on_failure:
  assumes "trim (userInput st) \<noteq> []" and "selectedModel st \<noteq> []"
    and "resp_ok resp" and "resp_body resp = Some (reads_of chunks (Some e))"
    and "\<forall>ch \<in> set chunks. \<forall>l \<in> set (lines_of ch). \<not> has_content P l"
  shows "\<exists>r. handleSubmit P (Inr resp) st = Some r
       \<and> messages (page r) = messages st @ [\<lparr>role = User, content = userInput st\<rparr>]
       \<and> errorMessage (page r) = js ''Error sending message: '' @ err_message e
       \<and> \<not> isLoading (page r)"
proof -
  let ?msgs = "messages st @ [\<lparr>role = User, content = userInput st\<rparr>]"
  let ?s = "([], ?msgs @ [placeholder])"
  have "\<forall>l \<in> set (concat (map lines_of chunks)). \<not> has_content P l"
    using assms(5) by auto
  then have "fst (process_lines P ?s (concat (map lines_of chunks))) = ?s"
    by (rule process_lines_no_content)
  then obtain con where "process_lines P ?s (concat (map lines_of chunks)) = (?s, con)"
    by (cases "process_lines P ?s (concat (map lines_of chunks))") auto
  with assms(1,2) submit_try_stream [OF assms(3,4), of P ?msgs]
  show ?thesis
    by (simp add: handleSubmit_def Let_def placeholder_def submit_catch_def butlast_append)
qed

text \<open>
  A run: a chunk with a line that is not JSON and a fragment of empty content, then the
  read fails.
\<close>

theorem placeholder_removed_on_failure_witness:
  "trim (userInput page0) \<noteq> [] \<and> selectedModel page0 \<noteq> []
   \<and> resp_ok (stream_response [line_oops @ [newline] @ line_empty @ [newline]] (Some read_aborted))
   \<and> lines_of (line_oops @ [newline] @ line_empty @ [newline]) = [line_oops, line_empty]
   \<and> \<not> has_content sample_platform line_oops
   \<and> \<not> has_content sample_platform line_empty
   \<and> (\<exists>r. handleSubmit sample_platform
              (Inr (stream_response [line_oops @ [newline] @ line_empty @ [newline]]
                 (Some read_aborted))) page0 = Some r
        \<and> messages (page r) = messages page0 @ [\<lparr>role = User, content = js ''hello''\<rparr>]
        \<and> errorMessage (page r) = js ''Error sending message: terminated'')"
proof -
  let ?cs = "[line_oops @ [newline] @ line_empty @ [newline]]"
  have ok: "resp_ok (stream_response ?cs (Some read_aborted))"
    and b: "resp_body (stream_response ?cs (Some read_aborted)) =
              Some (reads_of ?cs (Some read_aborted))"
    by (simp_all add: stream_response_def resp_ok_def)
  have l: "lines_of (line_oops @ [newline] @ line_empty @ [newline]) = [line_oops, line_empty]"
    by (simp add: lines_of_def line_oops_def line_empty_def js_def newline_def trim_def
        is_white_space_def)
  have h: "\<not> has_content sample_platform line_oops" "\<not> has_content sample_platform line_empty"
    by (simp_all add: has_content_def sample_platform_def sample_texts_def sample_text_defs
        get_prop_def js_def)
  have nc: "\<forall>ch \<in> set ?cs. \<forall>l \<in> set (lines_of ch). \<not> has_content sample_platform l"
    using l h by simp
  have u: "userInput page0 = js ''hello''"
    by (simp add: page0_def)
  have m: "js ''Error sending message: '' @ err_message read_aborted =
             js ''Error sending message: terminated''"
    by (simp add: read_aborted_def js_def)
  from placeholder_removed_on_failure [OF page0_ready ok b nc]
  have "\<exists>r. handleSubmit sample_platform (Inr (stream_response ?cs (Some read_aborted))) page0
               = Some r
        \<and> messages (page r) = messages page0 @ [\<lparr>role = User, content = js ''hello''\<rparr>]
        \<and> errorMessage (page r) = js ''Error sending message: terminated''"
    unfolding u m by auto
  with page0_ready ok l h show ?thesis by blast
qed

section \<open>Missing configuration\<close>

text \<open>
  C3. When the upstream base URL is unset (undefined or empty), the tags relay and the
  chat relay both answer status 500 with the JSON envelope \<open>{ error: text }\<close> and send
  no request upstream, whatever the request and whatever the network would do.
\<close>

theorem unset_url_is_500_without_network:
  assumes "url_missing u"
  shows "status (response (GET P u net)) = 500
       \<and> body (response (GET P u net)) =
           JsonText (error_envelope (js ''Application is not configured to connect to Ollama service.''))
       \<and> upstream_calls (GET P u net) = []
       \<and> status (response (POST P u request_text net')) = 500
       \<and> body (response (POST P u request_text net')) =
           JsonText (error_envelope (js ''Application is not configured to connect to Ollama service.''))
       \<and> upstream_calls (POST P u request_text net') = []"
  using assms by (simp add: GET_def POST_def json_response_def)

text \<open>A run with the variable undefined, on a request that is otherwise fine.\<close>

theorem unset_url_is_500_without_network_witness:
  "url_missing None
   \<and> status (response (GET sample_platform None net_stream)) = 500
   \<and> error_field (response (GET sample_platform None net_stream)) =
       Some (js ''Application is not configured to connect to Ollama service.'')
   \<and> upstream_calls (GET sample_platform None net_stream) = []
   \<and> status (response (POST sample_platform None text_model_m net_stream)) = 500
   \<and> error_field (response (POST sample_platform None text_model_m net_stream)) =
       Some (js ''Application is not configured to connect to Ollama service.'')
   \<and> upstream_calls (POST sample_platform None text_model_m net_stream) = []"
proof -
  have m: "url_missing None"
    by (simp add: url_missing_def)
  from unset_url_is_500_without_network [OF m, of sample_platform net_stream text_model_m net_stream] m
  show ?thesis
    by (simp add: error_field_def error_envelope_def)
qed

section \<open>The upstream request of the chat relay\<close>

text \<open>
  C2. Whatever the request, the chat relay sends at most one request upstream, and
  every request it sends has \<open>stream\<close> set to true in its body. For a request body
  with a model name and messages (and the upstream URL configured) it sends exactly one,
  with that model, those messages and \<open>stream: true\<close>, whether the caller's body had
  \<open>stream: false\<close>, \<open>stream: true\<close> or no \<open>stream\<close> at all.
\<close>

theorem chat_relay_one_call_stream_true:
  "length (upstream_calls (POST P u t net)) \<le> 1
   \<and> (\<forall>c \<in> set (upstream_calls (POST P u t net)). stream_flag c = Some (JBool True))
   \<and> (\<not> url_missing u \<and> json_parse P t = Inr (JObj fs)
        \<and> map_of fs (js ''model'') = Some (JStr m) \<and> m \<noteq> []
        \<and> map_of fs (js ''messages'') = Some ms \<and> truthy ms
      \<longrightarrow> upstream_calls (POST P u t net) = [chat_call (url_text u) (JStr m) ms])"
  using POST_calls [of P u t net] POST_forwards(2) [of u P t fs m ms net]
  by (auto simp: stream_flag_chat_call)

text \<open>A run on a body that asks for \<open>stream: false\<close>.\<close>

theorem chat_relay_one_call_stream_true_witness:
  "\<not> url_missing sample_url
   \<and> json_parse sample_platform text_stream_false =
       Inr (JObj [(js ''model'', JStr (js ''m'')), (js ''messages'', JArr []),
                  (js ''stream'', JBool False)])
   \<and> upstream_calls (POST sample_platform sample_url text_stream_false net_stream) =
       [chat_call (js ''http://localhost:11434'') (JStr (js ''m'')) (JArr [])]
   \<and> list_all (\<lambda>c. stream_flag c = Some (JBool True))
        (upstream_calls (POST sample_platform sample_url text_stream_false net_stream))"
proof -
  let ?fs = "[(js ''model'', JStr (js ''m'')), (js ''messages'', JArr []),
              (js ''stream'', JBool False)]"
  have f: "map_of ?fs (js ''model'') = Some (JStr (js ''m''))"
    "map_of ?fs (js ''messages'') = Some (JArr [])"
    by (simp_all add: js_def)
  show ?thesis
    using chat_relay_one_call_stream_true [of sample_platform sample_url text_stream_false
        net_stream ?fs "js ''m''" "JArr []"] sample_parse(5) sample_url_set f
    by (simp add: list_all_iff)
qed

section \<open>A fetch that rejects\<close>

text \<open>
  C4 (amended). When the upstream \<open>fetch\<close> of a relay rejects with an \<open>Error\<close>
  whose cause has the code \<open>ECONNREFUSED\<close>, the tags relay and the chat relay answer
  status 503; on any other rejection they answer 500 (the chat relay 400 when the
  thrown value is a \<open>SyntaxError\<close>). In every case the \<open>error\<close> field of the JSON
  envelope is not empty.
\<close>

theorem rejected_fetch_status:
  fixes net :: "thrown + 's upstream_response"
  assumes "\<not> url_missing u" and "net = Inl e"
    and "upstream_calls (POST P u t net) \<noteq> []"
  shows "status (response (GET P u net)) = (if connection_refused e then 503 else 500)
       \<and> (\<exists>m. error_field (response (GET P u net)) = Some m \<and> m \<noteq> [])
       \<and> status (response (POST P u t net)) =
           (if connection_refused e then 503 else if instanceof_SyntaxError e then 400 else 500)
       \<and> (\<exists>m. error_field (response (POST P u t net)) = Some m \<and> m \<noteq> [])"
proof -
  have g: "response (GET P u net) = GET_catch (url_text u) e"
    using assms(1,2) by (simp add: GET_def GET_try_def Let_def)
  obtain r calls con where t: "POST_try P (url_text u) t net = (r, calls, con)"
    by (cases "POST_try P (url_text u) t net") auto
  have "calls \<noteq> []"
    using assms t by (cases r) (simp_all add: POST_def)
  with t assms(2) have "r = Inl e"
    by (auto simp: POST_try_def POST_forward_def Let_def split: sum.splits if_splits)
  with t assms(1) have p: "response (POST P u t net) = POST_catch (url_text u) e"
    by (simp add: POST_def)
  show ?thesis
    unfolding g p
    by (simp add: GET_catch_def POST_catch_def json_response_def error_field_def
        error_envelope_def)
qed

text \<open>A run with the connection refused.\<close>

theorem rejected_fetch_status_witness:
  "\<not> url_missing sample_url \<and> net_refused = Inl refused
   \<and> upstream_calls (POST sample_platform sample_url text_model_m net_refused) \<noteq> []
   \<and> connection_refused refused
   \<and> status (response (GET sample_platform sample_url net_refused)) = 503
   \<and> (\<exists>m. error_field (response (GET sample_platform sample_url net_refused)) = Some m
          \<and> m \<noteq> [])
   \<and> status (response (POST sample_platform sample_url text_model_m net_refused)) = 503
   \<and> (\<exists>m. error_field (response (POST sample_platform sample_url text_model_m net_refused)) =
            Some m \<and> m \<noteq> [])"
proof -
  have c: "upstream_calls (POST sample_platform sample_url text_model_m net_refused) \<noteq> []"
    using POST_forwards(2) [OF sample_url_set(1) sample_parse(3), of "js ''m''" "JArr []" net_refused]
    by (simp add: js_def)
  have r: "connection_refused refused"
    by (simp add: connection_refused_def instanceof_Error_def refused_def)
  from rejected_fetch_status [OF sample_url_set(1) net_refused_def c] r
  show ?thesis
    using sample_url_set(1) net_refused_def c by simp
qed

text \<open>
  A run with the upstream host not found: the \<open>fetch\<close> of each relay is made and
  rejects, the service is unreachable, and the status is 500.
\<close>

theorem rejected_fetch_counterexample:
  "net_host_not_found = Inl host_not_found
   \<and> upstream_calls (GET sample_platform sample_url net_host_not_found) \<noteq> []
   \<and> status (response (GET sample_platform sample_url net_host_not_found)) = 500
   \<and> upstream_calls (POST sample_platform sample_url text_model_m net_host_not_found) \<noteq> []
   \<and> status (response (POST sample_platform sample_url text_model_m net_host_not_found)) = 500"
proof -
  have g: "upstream_calls (GET sample_platform sample_url net_host_not_found) \<noteq> []"
    "status (response (GET sample_platform sample_url net_host_not_found)) = 500"
    by (simp_all add: GET_def GET_try_def GET_catch_def Let_def sample_url_set
        net_host_not_found_def host_not_found_def connection_refused_def json_response_def js_def)
  have p: "upstream_calls (POST sample_platform sample_url text_model_m net_host_not_found) \<noteq> []"
    using POST_forwards(2) [OF sample_url_set(1) sample_parse(3), of "js ''m''" "JArr []"
        net_host_not_found]
    by (simp add: js_def)
  have s: "status (response (POST sample_platform sample_url text_model_m net_host_not_found)) = 500"
    by code_simp
  show ?thesis
    using g p s by (simp add: net_host_not_found_def)
qed

section \<open>Validation of the chat request\<close>

text \<open>
  C5 (amended). When the upstream URL is configured, for every chat request body that is
  JSON other than \<open>null\<close> and in which the \<open>model\<close> field or the \<open>messages\<close> field
  is absent, the chat relay answers status 400 with the JSON envelope
  \<open>Missing model or messages in request body.\<close> and sends no request upstream.
\<close>

theorem missing_field_is_400:
  assumes "\<not> url_missing u" and "json_parse P t = Inr rb"
    and "rb \<noteq> JNull" and "rb \<noteq> JUndefined"
    and "\<not> has_field rb (js ''model'') \<or> \<not> has_field rb (js ''messages'')"
  shows "status (response (POST P u t net)) = 400
       \<and> error_field (response (POST P u t net)) =
           Some (js ''Missing model or messages in request body.'')
       \<and> upstream_calls (POST P u t net) = []"
  using assms
  by (cases rb)
     (auto simp: POST_def POST_try_def JSON_parse_def get_prop_def has_field_def
        json_response_def error_field_def error_envelope_def split: option.splits)

text \<open>A run on the body \<open>{}\<close>.\<close>

theorem missing_field_is_400_witness:
  "\<not> url_missing sample_url
   \<and> json_parse sample_platform text_empty_object = Inr (JObj [])
   \<and> \<not> has_field (JObj []) (js ''model'')
   \<and> status (response (POST sample_platform sample_url text_empty_object net_stream)) = 400
   \<and> error_field (response (POST sample_platform sample_url text_empty_object net_stream)) =
       Some (js ''Missing model or messages in request body.'')
   \<and> upstream_calls (POST sample_platform sample_url text_empty_object net_stream) = []"
proof -
  have h: "\<not> has_field (JObj []) (js ''model'')"
    by (simp add: has_field_def)
  from h have "\<not> has_field (JObj []) (js ''model'') \<or> \<not> has_field (JObj []) (js ''messages'')"
    by simp
  from missing_field_is_400 [OF sample_url_set(1) sample_parse(1) _ _ this, of net_stream]
  show ?thesis
    using sample_url_set(1) sample_parse(1) h by simp
qed

text \<open>
  Two runs on bodies without \<open>model\<close> and \<open>messages\<close> where the status is 500: the
  body \<open>{}\<close> with the upstream URL unset, and the body \<open>null\<close> with it set.
\<close>

theorem missing_field_counterexample:
  "json_parse sample_platform text_empty_object = Inr (JObj [])
   \<and> status (response (POST sample_platform None text_empty_object net_stream)) = 500
   \<and> json_parse sample_platform text_null = Inr JNull
   \<and> status (response (POST sample_platform sample_url text_null net_stream)) = 500"
proof -
  have a: "status (response (POST sample_platform None text_empty_object net_stream)) = 500"
    by (simp add: POST_def url_missing_def json_response_def)
  have b: "status (response (POST sample_platform sample_url text_null net_stream)) = 500"
    using sample_url_set(1) sample_parse(2)
    by (simp add: POST_def POST_try_def JSON_parse_def get_prop_def POST_catch_def
        connection_refused_def instanceof_SyntaxError_def new_error_def json_response_def)
  show ?thesis
    using a b sample_parse(1,2) by simp
qed

text \<open>
  C9 (amended). When the upstream URL is configured: a chat request body whose
  \<open>model\<close> is a non-empty string and whose \<open>messages\<close> is the empty array passes the
  validation, and the request is sent upstream (once, with the model, the empty array
  and \<open>stream: true\<close>); the answer is not the envelope of the validation, and its status
  is 400 only when the upstream itself answered 400 or the \<open>fetch\<close> threw a
  \<open>SyntaxError\<close>. A body whose \<open>model\<close> is the empty string is rejected with status
  400 and the envelope of the validation, without any request upstream.
\<close>

theorem empty_messages_pass_empty_model_rejected:
  assumes "\<not> url_missing u" and "json_parse P t = Inr (JObj fs)"
  shows "(map_of fs (js ''model'') = Some (JStr m) \<and> m \<noteq> []
          \<and> map_of fs (js ''messages'') = Some (JArr []) \<longrightarrow>
            upstream_calls (POST P u t net) = [chat_call (url_text u) (JStr m) (JArr [])]
          \<and> error_field (response (POST P u t net)) \<noteq>
                Some (js ''Missing model or messages in request body.'')
          \<and> (status (response (POST P u t net)) = 400 \<longrightarrow>
               (case net of Inr r \<Rightarrow> up_status r = 400 | Inl e \<Rightarrow> instanceof_SyntaxError e)))
       \<and> (map_of fs (js ''model'') = Some (JStr []) \<longrightarrow>
            status (response (POST P u t net)) = 400
          \<and> error_field (response (POST P u t net)) =
                Some (js ''Missing model or messages in request body.'')
          \<and> upstream_calls (POST P u t net) = [])"
proof (intro conjI impI)
  assume a: "map_of fs (js ''model'') = Some (JStr m) \<and> m \<noteq> []
          \<and> map_of fs (js ''messages'') = Some (JArr [])"
  with assms have t: "POST_try P (url_text u) t net = POST_forward P (url_text u) (JStr m) (JArr []) net"
    and c: "upstream_calls (POST P u t net) = [chat_call (url_text u) (JStr m) (JArr [])]"
    using POST_forwards [of u P t fs m "JArr []" net] by simp_all
  show "upstream_calls (POST P u t net) = [chat_call (url_text u) (JStr m) (JArr [])]"
    by (rule c)
  show "error_field (response (POST P u t net)) \<noteq>
          Some (js ''Missing model or messages in request body.'')"
    using assms(1) t
    by (auto simp: POST_def POST_forward_def ToString_def Let_def new_Response_def
        POST_catch_def json_response_def error_field_def error_envelope_def js_def
        split: sum.splits prod.splits if_splits)
  show "case net of Inr r \<Rightarrow> up_status r = 400 | Inl e \<Rightarrow> instanceof_SyntaxError e"
    if "status (response (POST P u t net)) = 400"
    using that assms(1) t
    by (auto simp: POST_def POST_forward_def ToString_def Let_def new_Response_def
        POST_catch_def json_response_def instanceof_SyntaxError_def new_error_def
        split: sum.splits prod.splits if_splits)
next
  assume a: "map_of fs (js ''model'') = Some (JStr [])"
  with assms show "status (response (POST P u t net)) = 400"
    "error_field (response (POST P u t net)) = Some (js ''Missing model or messages in request body.'')"
    "upstream_calls (POST P u t net) = []"
    by (auto simp: POST_def POST_try_def JSON_parse_def get_prop_def
        json_response_def error_field_def error_envelope_def split: option.splits)
qed

text \<open>
  Two runs: the body with model \<open>m\<close> and no messages goes upstream and the stream is
  passed on with status 200; the body with the empty model name gets the 400.
\<close>

theorem empty_messages_pass_empty_model_rejected_witness:
  "\<not> url_missing sample_url
   \<and> json_parse sample_platform text_model_m =
       Inr (JObj [(js ''model'', JStr (js ''m'')), (js ''messages'', JArr [])])
   \<and> upstream_calls (POST sample_platform sample_url text_model_m net_stream) =
       [chat_call (js ''http://localhost:11434'') (JStr (js ''m'')) (JArr [])]
   \<and> status (response (POST sample_platform sample_url text_model_m net_stream)) = 200
   \<and> error_field (response (POST sample_platform sample_url text_model_m net_stream)) \<noteq>
       Some (js ''Missing model or messages in request body.'')
   \<and> json_parse sample_platform text_empty_model =
       Inr (JObj [(js ''model'', JStr []), (js ''messages'', JArr [])])
   \<and> status (response (POST sample_platform sample_url text_empty_model net_stream)) = 400
   \<and> error_field (response (POST sample_platform sample_url text_empty_model net_stream)) =
       Some (js ''Missing model or messages in request body.'')
   \<and> upstream_calls (POST sample_platform sample_url text_empty_model net_stream) = []"
proof -
  let ?fs = "[(js ''model'', JStr (js ''m'')), (js ''messages'', JArr [])]"
  let ?gs = "[(js ''model'', JStr []), (js ''messages'', JArr [])]"
  have f: "map_of ?fs (js ''model'') = Some (JStr (js ''m''))"
    "map_of ?fs (js ''messages'') = Some (JArr [])"
    "map_of ?gs (js ''model'') = Some (JStr [])"
    by (simp_all add: js_def)
  have s: "status (response (POST sample_platform sample_url text_model_m net_stream)) = 200"
    by code_simp
  from empty_messages_pass_empty_model_rejected
    [OF sample_url_set(1) sample_parse(3), of "js ''m''" net_stream]
    empty_messages_pass_empty_model_rejected
    [OF sample_url_set(1) sample_parse(4), of "js ''m''" net_stream]
  show ?thesis
    using f s sample_url_set sample_parse(3,4) by simp
qed

text \<open>
  Three runs. The body with model \<open>m\<close> and no messages gets status 400 when the
  upstream answers 400. With the upstream URL unset the same body is not sent upstream,
  and the body with the empty model name gets status 500.
\<close>

theorem empty_messages_counterexample:
  "json_parse sample_platform text_model_m =
     Inr (JObj [(js ''model'', JStr (js ''m'')), (js ''messages'', JArr [])])
   \<and> status (response (POST sample_platform sample_url text_model_m net_400)) = 400
   \<and> upstream_calls (POST sample_platform None text_model_m net_stream) = []
   \<and> json_parse sample_platform text_empty_model =
       Inr (JObj [(js ''model'', JStr []), (js ''messages'', JArr [])])
   \<and> status (response (POST sample_platform None text_empty_model net_stream)) = 500"
proof -
  have a: "status (response (POST sample_platform sample_url text_model_m net_400)) = 400"
    by code_simp
  have b: "upstream_calls (POST sample_platform None text_model_m net_stream) = []"
    "status (response (POST sample_platform None text_empty_model net_stream)) = 500"
    by (simp_all add: POST_def url_missing_def json_response_def)
  show ?thesis
    using a b sample_parse(3,4) by simp
qed

text \<open>
  C10 (amended). When the upstream URL is configured, for every POST request whose body
  is not valid JSON the chat relay answers status 400 with the JSON envelope whose
  \<open>error\<close> field is \<open>Invalid JSON in request body.\<close> and sends no request
  upstream.
\<close>

theorem invalid_json_is_400:
  assumes "\<not> url_missing u" and "json_parse P t = Inl m"
  shows "status (response (POST P u t net)) = 400
       \<and> error_field (response (POST P u t net)) = Some (js ''Invalid JSON in request body.'')
       \<and> upstream_calls (POST P u t net) = []"
  using assms
  by (simp add: POST_def POST_try_def JSON_parse_def POST_catch_def connection_refused_def
      instanceof_SyntaxError_def new_error_def json_response_def error_field_def
      error_envelope_def)

text \<open>A run on a body cut after \<open>{"model":\<close>.\<close>

theorem invalid_json_is_400_witness:
  "\<not> url_missing sample_url
   \<and> json_parse sample_platform text_truncated = Inl (js ''Unexpected token'')
   \<and> status (response (POST sample_platform sample_url text_truncated net_stream)) = 400
   \<and> error_field (response (POST sample_platform sample_url text_truncated net_stream)) =
       Some (js ''Invalid JSON in request body.'')
   \<and> upstream_calls (POST sample_platform sample_url text_truncated net_stream) = []"
  using invalid_json_is_400 [OF sample_url_set(1) sample_parse(6), of net_stream]
    sample_url_set(1) sample_parse(6)
  by simp

text \<open>The same body with the upstream URL unset: the status is 500.\<close>

theorem invalid_json_counterexample:
  "json_parse sample_platform text_truncated = Inl (js ''Unexpected token'')
   \<and> status (response (POST sample_platform None text_truncated net_stream)) = 500"
proof -
  have "status (response (POST sample_platform None text_truncated net_stream)) = 500"
    by (simp add: POST_def url_missing_def json_response_def)
  with sample_parse(6) show ?thesis by simp
qed

end
